theory Spec2Isabelle
  imports Complex_Main
begin

section \<open>JavaScript values\<close>

text \<open>
  The time calculation engine (\<^verbatim>\<open>time-calculator.js\<close>) is dynamically typed: every argument
  may be any JavaScript value. Numbers are IEEE 754 binary64 values in the source; here a
  number is one of the three special values or a finite real, and the two zeros are one
  value. A product, a sum or a quotient of finite numbers is rounded to the nearest binary64
  value, as the source's operators do.
\<close>

datatype jsnum = NaN | PInf | NInf | Fin real

subsection \<open>Rounding to binary64\<close>

text \<open>
  The binade of a positive real \<open>a\<close>: the exponent \<open>e\<close> with \<open>2\<^sup>e \<le> a < 2\<^sup>e\<^sup>+\<^sup>1\<close>, and \<open>-1022\<close> for
  everything below \<open>2\<^sup>-\<^sup>1\<^sup>0\<^sup>2\<^sup>2\<close> (the subnormal range).
\<close>

fun log2n :: "nat \<Rightarrow> nat" where
  "log2n n = (if n < 2 then 0 else 1 + log2n (n div 2))"

declare log2n.simps [simp del]

fun doublings :: "nat \<Rightarrow> real \<Rightarrow> nat" where
  "doublings fuel a =
     (if fuel = 0 \<or> 1 \<le> a then 0 else 1 + doublings (fuel - 1) (2 * a))"

declare doublings.simps [simp del]

definition binade :: "real \<Rightarrow> int" where
  "binade a = (if 1 \<le> a then int (log2n (nat \<lfloor>a\<rfloor>)) else - int (doublings 1022 a))"

definition pow2 :: "int \<Rightarrow> real" where
  "pow2 i = (if 0 \<le> i then 2 ^ nat i else 1 / 2 ^ nat (- i))"

text \<open>The nearest integer, a tie going to the even one.\<close>

definition round_half_even :: "real \<Rightarrow> int" where
  "round_half_even y =
     (if y - of_int \<lfloor>y\<rfloor> < 1 / 2 then \<lfloor>y\<rfloor>
      else if 1 / 2 < y - of_int \<lfloor>y\<rfloor> then \<lfloor>y\<rfloor> + 1
      else if even \<lfloor>y\<rfloor> then \<lfloor>y\<rfloor> else \<lfloor>y\<rfloor> + 1)"

text \<open>The nearest multiple of the spacing \<open>q\<close>.\<close>

definition round_to :: "real \<Rightarrow> real \<Rightarrow> real" where
  "round_to q a = of_int (round_half_even (a / q)) * q"

text \<open>
  In the binade \<open>e\<close> the binary64 values are the multiples of \<open>2\<^sup>e\<^sup>-\<^sup>5\<^sup>2\<close> (53 significant
  bits).
\<close>

definition nearest_double :: "real \<Rightarrow> real" where
  "nearest_double a = round_to (pow2 (binade a - 52)) a"

text \<open>
  The result of an arithmetic operation whose exact value is \<open>x\<close>: round to nearest, ties to
  even; a magnitude that rounds to \<open>2\<^sup>1\<^sup>0\<^sup>2\<^sup>4\<close> or more is an infinity.
\<close>

definition fl64 :: "real \<Rightarrow> jsnum" where
  "fl64 x =
     (if x = 0 then Fin 0
      else if 2 ^ 1024 \<le> nearest_double \<bar>x\<bar> then (if 0 < x then PInf else NInf)
      else Fin (if 0 < x then nearest_double \<bar>x\<bar> else - nearest_double \<bar>x\<bar>))"

text \<open>
  An object is a plain data record: an ordered list of own properties, read with
  \<open>get_prop\<close>. A function value carries an identity and whether calling it throws.
  Symbols and BigInts are not modelled.
\<close>

datatype jsval =
    JUndefined
  | JNull
  | JBool bool
  | JNum jsnum
  | JStr string
  | JObj "(string \<times> jsval) list"
  | JFun nat bool

type_synonym props = "(string \<times> jsval) list"

datatype jstype = TUndefined | TObject | TBoolean | TNumber | TString | TFunction

fun typeof :: "jsval \<Rightarrow> jstype" where
  "typeof JUndefined = TUndefined"
| "typeof JNull = TObject"
| "typeof (JBool b) = TBoolean"
| "typeof (JNum n) = TNumber"
| "typeof (JStr s) = TString"
| "typeof (JObj ps) = TObject"
| "typeof (JFun i t) = TFunction"

text \<open>Truthiness, as \<^verbatim>\<open>!x\<close>, \<^verbatim>\<open>x || y\<close>, \<^verbatim>\<open>x ? a : b\<close> and \<^verbatim>\<open>Boolean(x)\<close> read it.\<close>

fun truthy :: "jsval \<Rightarrow> bool" where
  "truthy JUndefined = False"
| "truthy JNull = False"
| "truthy (JBool b) = b"
| "truthy (JNum n) = (n \<noteq> NaN \<and> n \<noteq> Fin 0)"
| "truthy (JStr s) = (s \<noteq> [])"
| "truthy (JObj ps) = True"
| "truthy (JFun i t) = True"

definition js_or :: "jsval \<Rightarrow> jsval \<Rightarrow> jsval" where
  "js_or a b = (if truthy a then a else b)"

definition get_prop :: "props \<Rightarrow> string \<Rightarrow> jsval" where
  "get_prop ps k = (case map_of ps k of Some v \<Rightarrow> v | None \<Rightarrow> JUndefined)"

fun set_prop :: "string \<Rightarrow> jsval \<Rightarrow> props \<Rightarrow> props" where
  "set_prop k v [] = [(k, v)]"
| "set_prop k v ((k', v') # ps) =
     (if k = k' then (k, v) # ps else (k', v') # set_prop k v ps)"

subsection \<open>Number operators\<close>

text \<open>\<^verbatim>\<open>a < b\<close> on numbers: false as soon as one side is \<^verbatim>\<open>NaN\<close>.\<close>

fun js_lt :: "jsnum \<Rightarrow> jsnum \<Rightarrow> bool" where
  "js_lt NaN b = False"
| "js_lt a NaN = False"
| "js_lt (Fin a) (Fin b) = (a < b)"
| "js_lt (Fin a) PInf = True"
| "js_lt (Fin a) NInf = False"
| "js_lt PInf b = False"
| "js_lt NInf NInf = False"
| "js_lt NInf b = True"

definition js_gt :: "jsnum \<Rightarrow> jsnum \<Rightarrow> bool" where
  "js_gt a b = js_lt b a"

text \<open>\<^verbatim>\<open>a <= b\<close> on numbers.\<close>

definition js_le :: "jsnum \<Rightarrow> jsnum \<Rightarrow> bool" where
  "js_le a b = (a \<noteq> NaN \<and> b \<noteq> NaN \<and> (a = b \<or> js_lt a b))"

text \<open>\<^verbatim>\<open>a === b\<close> on numbers.\<close>

definition js_eq :: "jsnum \<Rightarrow> jsnum \<Rightarrow> bool" where
  "js_eq a b = (a \<noteq> NaN \<and> a = b)"

fun js_mul :: "jsnum \<Rightarrow> jsnum \<Rightarrow> jsnum" where
  "js_mul NaN b = NaN"
| "js_mul a NaN = NaN"
| "js_mul (Fin a) (Fin b) = fl64 (a * b)"
| "js_mul (Fin a) PInf = (if a = 0 then NaN else if 0 < a then PInf else NInf)"
| "js_mul (Fin a) NInf = (if a = 0 then NaN else if 0 < a then NInf else PInf)"
| "js_mul PInf (Fin b) = (if b = 0 then NaN else if 0 < b then PInf else NInf)"
| "js_mul NInf (Fin b) = (if b = 0 then NaN else if 0 < b then NInf else PInf)"
| "js_mul PInf PInf = PInf"
| "js_mul PInf NInf = NInf"
| "js_mul NInf PInf = NInf"
| "js_mul NInf NInf = PInf"

fun js_add :: "jsnum \<Rightarrow> jsnum \<Rightarrow> jsnum" where
  "js_add NaN b = NaN"
| "js_add a NaN = NaN"
| "js_add (Fin a) (Fin b) = fl64 (a + b)"
| "js_add (Fin a) b = b"
| "js_add a (Fin b) = a"
| "js_add PInf PInf = PInf"
| "js_add NInf NInf = NInf"
| "js_add PInf NInf = NaN"
| "js_add NInf PInf = NaN"

text \<open>\<^verbatim>\<open>a / b\<close>; a zero divisor is the positive zero.\<close>

fun js_div :: "jsnum \<Rightarrow> jsnum \<Rightarrow> jsnum" where
  "js_div NaN b = NaN"
| "js_div a NaN = NaN"
| "js_div (Fin a) (Fin b) =
     (if b \<noteq> 0 then fl64 (a / b)
      else if a = 0 then NaN else if 0 < a then PInf else NInf)"
| "js_div (Fin a) b = Fin 0"
| "js_div PInf (Fin b) = (if 0 \<le> b then PInf else NInf)"
| "js_div NInf (Fin b) = (if 0 \<le> b then NInf else PInf)"
| "js_div a b = NaN"

text \<open>
  \<^verbatim>\<open>a % b\<close>: the remainder of the division truncated towards zero. It is a binary64 value
  whenever \<open>a\<close> and \<open>b\<close> are, so nothing is rounded.
\<close>

definition trunc :: "real \<Rightarrow> int" where
  "trunc q = (if 0 \<le> q then \<lfloor>q\<rfloor> else \<lceil>q\<rceil>)"

fun js_rem :: "jsnum \<Rightarrow> jsnum \<Rightarrow> jsnum" where
  "js_rem NaN b = NaN"
| "js_rem a NaN = NaN"
| "js_rem PInf b = NaN"
| "js_rem NInf b = NaN"
| "js_rem (Fin a) (Fin b) = (if b = 0 then NaN else Fin (a - b * of_int (trunc (a / b))))"
| "js_rem (Fin a) b = Fin a"

text \<open>
  \<^verbatim>\<open>Math.round\<close>: the nearest integer, a tie going to the larger one; \<^verbatim>\<open>Math.floor\<close>. Both
  return a binary64 value on a binary64 value.
\<close>

fun Math_round :: "jsnum \<Rightarrow> jsnum" where
  "Math_round (Fin x) = Fin (of_int \<lfloor>x + 1 / 2\<rfloor>)"
| "Math_round n = n"

fun Math_floor :: "jsnum \<Rightarrow> jsnum" where
  "Math_floor (Fin x) = Fin (of_int \<lfloor>x\<rfloor>)"
| "Math_floor n = n"

subsection \<open>Numbers in template literals\<close>

fun digits10 :: "nat \<Rightarrow> string" where
  "digits10 n =
     (if n < 10 then [''0123456789'' ! n]
      else digits10 (n div 10) @ [''0123456789'' ! (n mod 10)])"

declare digits10.simps [simp del]

text \<open>
  \<^verbatim>\<open>`${n}`\<close> for a number. The decimal digits are those of JavaScript for an integral value
  below \<open>10\<^sup>2\<^sup>1\<close>; \<open>formatTime\<close> renders only values that went through \<^verbatim>\<open>Math.round\<close> or
  \<^verbatim>\<open>Math.floor\<close>, or the remainder of such a value by 60.
\<close>

fun num_to_string :: "jsnum \<Rightarrow> string" where
  "num_to_string NaN = ''NaN''"
| "num_to_string PInf = ''Infinity''"
| "num_to_string NInf = ''-Infinity''"
| "num_to_string (Fin r) = (if r < 0 then ''-'' else []) @ digits10 (nat \<lfloor>\<bar>r\<bar>\<rfloor>)"

section \<open>formatTime\<close>

text \<open>The part of \<^verbatim>\<open>formatTime\<close> after its guard, on the number it was given.\<close>

definition formatMinutes :: "jsnum \<Rightarrow> string" where
  "formatMinutes totalMinutes =
     (let roundedMinutes = Math_round totalMinutes in
      if js_lt roundedMinutes (Fin 60) then
        (if js_eq roundedMinutes (Fin 1) then ''1 minute''
         else num_to_string roundedMinutes @ '' minutes'')
      else
        let hours = Math_floor (js_div roundedMinutes (Fin 60));
            minutes = js_rem roundedMinutes (Fin 60);
            result0 = [];
            result1 =
              (if js_gt hours (Fin 0)
               then result0 @ (if js_eq hours (Fin 1) then ''1 hour''
                               else num_to_string hours @ '' hours'')
               else result0);
            result2 =
              (if js_gt minutes (Fin 0)
               then (if result1 \<noteq> [] then result1 @ '' '' else result1)
                    @ (if js_eq minutes (Fin 1) then ''1 minute''
                       else num_to_string minutes @ '' minutes'')
               else result1)
        in if result2 \<noteq> [] then result2 else ''0 minutes'')"

text \<open>
  \<^verbatim>\<open>typeof totalMinutes !== 'number' || totalMinutes < 0\<close>: the comparison is evaluated on
  numbers only.
\<close>

definition formatTime :: "jsval \<Rightarrow> string" where
  "formatTime totalMinutes =
     (case totalMinutes of
        JNum n \<Rightarrow> (if js_lt n (Fin 0) then ''0 minutes'' else formatMinutes n)
      | _ \<Rightarrow> ''0 minutes'')"

subsection \<open>Coercion to a number\<close>

text \<open>
  \<^verbatim>\<open>ToNumber\<close> is fixed by the language on \<^verbatim>\<open>undefined\<close>, \<^verbatim>\<open>null\<close>, booleans and numbers.
  What the engine makes of a string, an object or a function is a parameter \<open>rt\<close> of the
  model: every theorem below holds whatever it is.
\<close>

type_synonym runtime = "jsval \<Rightarrow> jsnum"

definition to_number :: "runtime \<Rightarrow> jsval \<Rightarrow> jsnum" where
  "to_number rt v =
     (case v of
        JUndefined \<Rightarrow> NaN
      | JNull \<Rightarrow> Fin 0
      | JBool b \<Rightarrow> (if b then Fin 1 else Fin 0)
      | JNum n \<Rightarrow> n
      | _ \<Rightarrow> rt v)"

text \<open>A runtime for evaluating the model on inputs without strings or objects to coerce.\<close>

definition rt0 :: runtime where
  "rt0 v = NaN"

text \<open>\<^verbatim>\<open>a === b\<close>, used by the source against \<^verbatim>\<open>undefined\<close>, \<^verbatim>\<open>null\<close> and number literals.\<close>

fun strict_eq :: "jsval \<Rightarrow> jsval \<Rightarrow> bool" where
  "strict_eq (JNum a) (JNum b) = js_eq a b"
| "strict_eq a b = (a = b)"

fun props_of :: "jsval \<Rightarrow> props" where
  "props_of (JObj ps) = ps"
| "props_of v = []"

section \<open>calculateWatchTime\<close>

definition OPENING_THEME_DURATION :: jsnum where
  "OPENING_THEME_DURATION = Fin (3 / 2)"

definition ENDING_THEME_DURATION :: jsnum where
  "ENDING_THEME_DURATION = Fin (3 / 2)"

definition DEFAULT_EPISODE_DURATION :: jsnum where
  "DEFAULT_EPISODE_DURATION = Fin 24"

record validation =
  isValid :: bool
  error :: "string option"

definition validateCalculationInput :: "runtime \<Rightarrow> jsval \<Rightarrow> validation" where
  "validateCalculationInput rt options =
     (if \<not> truthy options \<or> typeof options \<noteq> TObject then
        \<lparr>isValid = False, error = Some ''Invalid calculation options provided''\<rparr>
      else
        let episodes = get_prop (props_of options) ''episodes'';
            episodeDuration = get_prop (props_of options) ''episodeDuration''
        in
        if typeof episodes \<noteq> TNumber \<or> js_lt (to_number rt episodes) (Fin 0) then
          \<lparr>isValid = False, error = Some ''Episodes must be a non-negative number''\<rparr>
        else if strict_eq episodes (JNum (Fin 0)) then
          \<lparr>isValid = False,
           error = Some ''Cannot calculate time for anime with 0 episodes''\<rparr>
        else if \<not> strict_eq episodeDuration JUndefined \<and> \<not> strict_eq episodeDuration JNull \<and>
                (typeof episodeDuration \<noteq> TNumber \<or>
                 js_le (to_number rt episodeDuration) (Fin 0)) then
          \<lparr>isValid = False, error = Some ''Episode duration must be a positive number''\<rparr>
        else if js_gt (to_number rt episodes) (Fin 10000) then
          \<lparr>isValid = False,
           error = Some ''Episode count exceeds reasonable limit (10,000 episodes)''\<rparr>
        else if js_gt (to_number rt episodeDuration) (Fin 1440) then
          \<lparr>isValid = False,
           error = Some ''Episode duration exceeds reasonable limit (24 hours)''\<rparr>
        else \<lparr>isValid = True, error = None\<rparr>)"

record breakdown =
  episodes :: jsval
  episodeDuration :: jsnum
  baseTime :: string
  openingTime :: "string option"
  endingTime :: "string option"
  includeOpening :: jsval
  includeEnding :: jsval

record time_calculation_result =
  baseMinutes :: jsnum
  openingMinutes :: jsnum
  endingMinutes :: jsnum
  totalMinutes :: jsnum
  formattedTime :: string
  breakdown :: breakdown

text \<open>A thrown \<^verbatim>\<open>Error\<close>, with its message.\<close>

datatype js_error = Error string

text \<open>A destructuring default: \<^verbatim>\<open>{ x = d } = obj\<close> takes \<open>d\<close> when the property is undefined.\<close>

definition with_default :: "jsval \<Rightarrow> jsval \<Rightarrow> jsval" where
  "with_default d v = (if v = JUndefined then d else v)"

definition calculateWatchTime :: "runtime \<Rightarrow> jsval \<Rightarrow> js_error + time_calculation_result" where
  "calculateWatchTime rt options =
     (let validation = validateCalculationInput rt options in
      if \<not> isValid validation then
        Inl (Error (case error validation of Some m \<Rightarrow> m | None \<Rightarrow> ''null''))
      else
        let episodes = get_prop (props_of options) ''episodes'';
            episodeDuration = get_prop (props_of options) ''episodeDuration'';
            includeOpening =
              with_default (JBool False) (get_prop (props_of options) ''includeOpening'');
            includeEnding =
              with_default (JBool False) (get_prop (props_of options) ''includeEnding'');
            finalEpisodeDuration =
              (if typeof episodeDuration = TNumber \<and> js_gt (to_number rt episodeDuration) (Fin 0)
               then to_number rt episodeDuration
               else DEFAULT_EPISODE_DURATION);
            baseMinutes = js_mul (to_number rt episodes) finalEpisodeDuration;
            openingMinutes =
              (if truthy includeOpening
               then js_mul (to_number rt episodes) OPENING_THEME_DURATION else Fin 0);
            endingMinutes =
              (if truthy includeEnding
               then js_mul (to_number rt episodes) ENDING_THEME_DURATION else Fin 0);
            totalMinutes = js_add (js_add baseMinutes openingMinutes) endingMinutes;
            formattedTime = formatTime (JNum totalMinutes);
            breakdown =
              \<lparr>episodes = episodes,
               episodeDuration = finalEpisodeDuration,
               baseTime = formatTime (JNum baseMinutes),
               openingTime =
                 (if truthy includeOpening then Some (formatTime (JNum openingMinutes))
                  else None),
               endingTime =
                 (if truthy includeEnding then Some (formatTime (JNum endingMinutes))
                  else None),
               includeOpening = includeOpening,
               includeEnding = includeEnding\<rparr>
        in Inr \<lparr>baseMinutes = baseMinutes,
                openingMinutes = openingMinutes,
                endingMinutes = endingMinutes,
                totalMinutes = totalMinutes,
                formattedTime = formattedTime,
                breakdown = breakdown\<rparr>)"

section \<open>createTimeCalculator\<close>

text \<open>
  The closure's variables are the fields of the state. \<open>trace\<close> records, in order, what the
  Session does to the outside: each call of a listener with its arguments (the third is
  absent or the error message), each \<^verbatim>\<open>console.error\<close>, and each call of
  \<open>calculateWatchTime\<close> with the options it was given. Listeners are observers: they may
  throw, they do not call back into the Session or write to the options they are handed.
\<close>

datatype event =
    ListenerCall jsval "time_calculation_result option" props "string option"
  | ConsoleError string
  | CalcInvoked props

record session =
  currentOptions :: props
  currentResult :: "time_calculation_result option"
  changeListeners :: "jsval list"
  trace :: "event list"

fun throws :: "jsval \<Rightarrow> bool" where
  "throws (JFun i t) = t"
| "throws v = True"

text \<open>
  One listener call inside its own exception handler: what the listener throws is logged
  and goes no further.
\<close>

definition call_listener ::
  "jsval \<Rightarrow> time_calculation_result option \<Rightarrow> props \<Rightarrow> string option \<Rightarrow> event list" where
  "call_listener listener r opts msg =
     ListenerCall listener r opts msg #
     (if throws listener then [ConsoleError ''Error in time calculator listener:''] else [])"

text \<open>\<^verbatim>\<open>changeListeners.forEach(...)\<close>.\<close>

definition notify ::
  "jsval list \<Rightarrow> time_calculation_result option \<Rightarrow> props \<Rightarrow> string option \<Rightarrow> event list" where
  "notify ls r opts msg = concat (map (\<lambda>listener. call_listener listener r opts msg) ls)"

definition recalculate :: "runtime \<Rightarrow> session \<Rightarrow> session" where
  "recalculate rt s =
     (if js_gt (to_number rt (get_prop (currentOptions s) ''episodes'')) (Fin 0) then
        (case calculateWatchTime rt (JObj (currentOptions s)) of
           Inr r \<Rightarrow>
             s\<lparr>currentResult := Some r,
               trace := trace s @ [CalcInvoked (currentOptions s)]
                        @ notify (changeListeners s) (Some r) (currentOptions s) None\<rparr>
         | Inl (Error message) \<Rightarrow>
             s\<lparr>currentResult := None,
               trace := trace s @ [CalcInvoked (currentOptions s),
                                   ConsoleError ''Error calculating time:'']
                        @ notify (changeListeners s) None (currentOptions s) (Some message)\<rparr>)
      else
        s\<lparr>currentResult := None,
          trace := trace s @ notify (changeListeners s) None (currentOptions s) None\<rparr>)"

definition baseline_options :: props where
  "baseline_options =
     [(''episodes'', JNum (Fin 0)),
      (''episodeDuration'', JNum DEFAULT_EPISODE_DURATION),
      (''includeOpening'', JBool False),
      (''includeEnding'', JBool False)]"

text \<open>
  The own enumerable properties an object spread copies: those of an object, the indexed
  characters of a string, none of any other value. The list of properties is kept in the
  order of the writes; the order in which JavaScript enumerates the keys (integer-like
  keys first) is read by no operation of the Session.
\<close>

fun own_props :: "jsval \<Rightarrow> props" where
  "own_props (JObj ps) = ps"
| "own_props (JStr cs) = map (\<lambda>i. (digits10 i, JStr [cs ! i])) [0..<length cs]"
| "own_props v = []"

definition createTimeCalculator :: "jsval \<Rightarrow> session" where
  "createTimeCalculator initialOptions =
     \<lparr>currentOptions =
        fold (\<lambda>(k, v). set_prop k v)
          (own_props (if initialOptions = JUndefined then JObj [] else initialOptions))
          baseline_options,
      currentResult = None,
      changeListeners = [],
      trace = []\<rparr>"

definition updateAnime :: "runtime \<Rightarrow> jsval \<Rightarrow> session \<Rightarrow> session" where
  "updateAnime rt animeData s =
     (if truthy animeData \<and> typeof animeData = TObject then
        recalculate rt
          (s\<lparr>currentOptions :=
               set_prop ''episodeDuration''
                 (js_or (get_prop (props_of animeData) ''duration'')
                    (JNum DEFAULT_EPISODE_DURATION))
                 (set_prop ''episodes''
                    (js_or (get_prop (props_of animeData) ''episodes'') (JNum (Fin 0)))
                    (currentOptions s))\<rparr>)
      else s)"

definition setIncludeOpening :: "runtime \<Rightarrow> jsval \<Rightarrow> session \<Rightarrow> session" where
  "setIncludeOpening rt include s =
     recalculate rt
       (s\<lparr>currentOptions :=
            set_prop ''includeOpening'' (JBool (truthy include)) (currentOptions s)\<rparr>)"

definition setIncludeEnding :: "runtime \<Rightarrow> jsval \<Rightarrow> session \<Rightarrow> session" where
  "setIncludeEnding rt include s =
     recalculate rt
       (s\<lparr>currentOptions :=
            set_prop ''includeEnding'' (JBool (truthy include)) (currentOptions s)\<rparr>)"

definition setThemeInclusion :: "runtime \<Rightarrow> jsval \<Rightarrow> jsval \<Rightarrow> session \<Rightarrow> session" where
  "setThemeInclusion rt includeOpening' includeEnding' s =
     recalculate rt
       (s\<lparr>currentOptions :=
            set_prop ''includeEnding'' (JBool (truthy includeEnding'))
              (set_prop ''includeOpening'' (JBool (truthy includeOpening'))
                 (currentOptions s))\<rparr>)"

definition getCurrentResult :: "session \<Rightarrow> time_calculation_result option" where
  "getCurrentResult s = currentResult s"

definition getCurrentOptions :: "session \<Rightarrow> props" where
  "getCurrentOptions s = currentOptions s"

definition addChangeListener :: "jsval \<Rightarrow> session \<Rightarrow> session" where
  "addChangeListener listener s =
     (if typeof listener = TFunction then
        s\<lparr>changeListeners := changeListeners s @ [listener],
          trace := trace s @ call_listener listener (currentResult s) (currentOptions s) None\<rparr>
      else s)"

text \<open>\<^verbatim>\<open>indexOf\<close> and \<^verbatim>\<open>splice(index, 1)\<close>: the first occurrence goes.\<close>

definition removeChangeListener :: "jsval \<Rightarrow> session \<Rightarrow> session" where
  "removeChangeListener listener s =
     s\<lparr>changeListeners := remove1 listener (changeListeners s)\<rparr>"

definition reset :: "session \<Rightarrow> session" where
  "reset s =
     s\<lparr>currentOptions := baseline_options,
       currentResult := None,
       trace := trace s @ notify (changeListeners s) None baseline_options None\<rparr>"

subsection \<open>Sequences of operations\<close>

datatype op =
    UpdateAnime jsval
  | SetIncludeOpening jsval
  | SetIncludeEnding jsval
  | SetThemeInclusion jsval jsval
  | Recalculate
  | Reset
  | AddChangeListener jsval
  | RemoveChangeListener jsval

fun step :: "runtime \<Rightarrow> op \<Rightarrow> session \<Rightarrow> session" where
  "step rt (UpdateAnime animeData) s = updateAnime rt animeData s"
| "step rt (SetIncludeOpening include) s = setIncludeOpening rt include s"
| "step rt (SetIncludeEnding include) s = setIncludeEnding rt include s"
| "step rt (SetThemeInclusion a b) s = setThemeInclusion rt a b s"
| "step rt Recalculate s = recalculate rt s"
| "step rt Reset s = reset s"
| "step rt (AddChangeListener listener) s = addChangeListener listener s"
| "step rt (RemoveChangeListener listener) s = removeChangeListener listener s"

fun run :: "runtime \<Rightarrow> op list \<Rightarrow> session \<Rightarrow> session" where
  "run rt [] s = s"
| "run rt (x # xs) s = run rt xs (step rt x s)"

text \<open>
  The operations that run the recomputation: the updates of the options (an
  \<open>updateAnime\<close> with a non-object does nothing) and the manual recompute.
\<close>

fun recomputes :: "op \<Rightarrow> bool" where
  "recomputes (UpdateAnime animeData) = (truthy animeData \<and> typeof animeData = TObject)"
| "recomputes (SetIncludeOpening include) = True"
| "recomputes (SetIncludeEnding include) = True"
| "recomputes (SetThemeInclusion a b) = True"
| "recomputes Recalculate = True"
| "recomputes x = False"

text \<open>The mutating operations: those and \<open>reset\<close>.\<close>

definition mutating :: "op \<Rightarrow> bool" where
  "mutating x = (recomputes x \<or> x = Reset)"

text \<open>The listener calls among some events, and the events an operation added.\<close>

fun is_call :: "event \<Rightarrow> bool" where
  "is_call (ListenerCall l r opts msg) = True"
| "is_call e = False"

definition calls :: "event list \<Rightarrow> event list" where
  "calls es = filter is_call es"

definition new_events :: "session \<Rightarrow> session \<Rightarrow> event list" where
  "new_events s s' = drop (length (trace s)) (trace s')"

fun is_calc :: "event \<Rightarrow> bool" where
  "is_calc (CalcInvoked opts) = True"
| "is_calc e = False"

text \<open>What a listener was told: the formatted time of the result it received.\<close>

fun notified_time :: "event \<Rightarrow> string option" where
  "notified_time (ListenerCall l r opts msg) = map_option formattedTime r"
| "notified_time e = None"

text \<open>
  The state a recomputing operation hands to \<open>recalculate\<close>: the options written, nothing
  else touched.
\<close>

fun write_options :: "op \<Rightarrow> session \<Rightarrow> session" where
  "write_options (UpdateAnime animeData) s =
     s\<lparr>currentOptions :=
         set_prop ''episodeDuration''
           (js_or (get_prop (props_of animeData) ''duration'') (JNum DEFAULT_EPISODE_DURATION))
           (set_prop ''episodes''
              (js_or (get_prop (props_of animeData) ''episodes'') (JNum (Fin 0)))
              (currentOptions s))\<rparr>"
| "write_options (SetIncludeOpening include) s =
     s\<lparr>currentOptions :=
         set_prop ''includeOpening'' (JBool (truthy include)) (currentOptions s)\<rparr>"
| "write_options (SetIncludeEnding include) s =
     s\<lparr>currentOptions :=
         set_prop ''includeEnding'' (JBool (truthy include)) (currentOptions s)\<rparr>"
| "write_options (SetThemeInclusion a b) s =
     s\<lparr>currentOptions :=
         set_prop ''includeEnding'' (JBool (truthy b))
           (set_prop ''includeOpening'' (JBool (truthy a)) (currentOptions s))\<rparr>"
| "write_options x s = s"

section \<open>The properties, as predicates\<close>

subsection \<open>Validation conditions\<close>

text \<open>The six error conditions and the message each one carries in the source.\<close>

datatype calc_error =
    InvalidInput
  | InvalidEpisodeCount
  | ZeroEpisodes
  | InvalidEpisodeDuration
  | EpisodeCountTooLarge
  | EpisodeDurationTooLarge

fun error_message :: "calc_error \<Rightarrow> string" where
  "error_message InvalidInput = ''Invalid calculation options provided''"
| "error_message InvalidEpisodeCount = ''Episodes must be a non-negative number''"
| "error_message ZeroEpisodes = ''Cannot calculate time for anime with 0 episodes''"
| "error_message InvalidEpisodeDuration = ''Episode duration must be a positive number''"
| "error_message EpisodeCountTooLarge =
     ''Episode count exceeds reasonable limit (10,000 episodes)''"
| "error_message EpisodeDurationTooLarge =
     ''Episode duration exceeds reasonable limit (24 hours)''"

definition is_object :: "jsval \<Rightarrow> bool" where
  "is_object v = (case v of JObj ps \<Rightarrow> True | _ \<Rightarrow> False)"

definition is_number :: "jsval \<Rightarrow> bool" where
  "is_number v = (case v of JNum n \<Rightarrow> True | _ \<Rightarrow> False)"

text \<open>"\<open>v\<close> is a number below (above, at most, equal to) \<open>c\<close>".\<close>

definition number_lt :: "jsval \<Rightarrow> real \<Rightarrow> bool" where
  "number_lt v c = (case v of JNum n \<Rightarrow> js_lt n (Fin c) | _ \<Rightarrow> False)"

definition number_gt :: "jsval \<Rightarrow> real \<Rightarrow> bool" where
  "number_gt v c = (case v of JNum n \<Rightarrow> js_gt n (Fin c) | _ \<Rightarrow> False)"

definition number_le :: "jsval \<Rightarrow> real \<Rightarrow> bool" where
  "number_le v c = (case v of JNum n \<Rightarrow> js_le n (Fin c) | _ \<Rightarrow> False)"

definition number_is :: "jsval \<Rightarrow> real \<Rightarrow> bool" where
  "number_is v c = (case v of JNum n \<Rightarrow> js_eq n (Fin c) | _ \<Rightarrow> False)"

definition present :: "jsval \<Rightarrow> bool" where
  "present v = (v \<noteq> JUndefined \<and> v \<noteq> JNull)"

text \<open>
  The first failing condition in the words of the specification: the fourth condition is
  "\<open>episodeDuration\<close> present but not a positive number".
\<close>

definition claimed_failure :: "jsval \<Rightarrow> calc_error option" where
  "claimed_failure options =
     (let episodes = get_prop (props_of options) ''episodes'';
          episodeDuration = get_prop (props_of options) ''episodeDuration''
      in
      if \<not> is_object options then Some InvalidInput
      else if \<not> is_number episodes \<or> number_lt episodes 0 then Some InvalidEpisodeCount
      else if number_is episodes 0 then Some ZeroEpisodes
      else if present episodeDuration \<and> \<not> number_gt episodeDuration 0
        then Some InvalidEpisodeDuration
      else if number_gt episodes 10000 then Some EpisodeCountTooLarge
      else if number_gt episodeDuration 1440 then Some EpisodeDurationTooLarge
      else None)"

text \<open>
  The same with the fourth condition as the source tests it: present, and not of type
  number or at most 0. The two differ on \<^verbatim>\<open>NaN\<close> only.
\<close>

definition first_failure :: "jsval \<Rightarrow> calc_error option" where
  "first_failure options =
     (let episodes = get_prop (props_of options) ''episodes'';
          episodeDuration = get_prop (props_of options) ''episodeDuration''
      in
      if \<not> is_object options then Some InvalidInput
      else if \<not> is_number episodes \<or> number_lt episodes 0 then Some InvalidEpisodeCount
      else if number_is episodes 0 then Some ZeroEpisodes
      else if present episodeDuration \<and>
              (\<not> is_number episodeDuration \<or> number_le episodeDuration 0)
        then Some InvalidEpisodeDuration
      else if number_gt episodes 10000 then Some EpisodeCountTooLarge
      else if number_gt episodeDuration 1440 then Some EpisodeDurationTooLarge
      else None)"

subsection \<open>Inputs of formatTime\<close>

definition finite_nonnegative :: "jsval \<Rightarrow> bool" where
  "finite_nonnegative v = (case v of JNum (Fin x) \<Rightarrow> 0 \<le> x | _ \<Rightarrow> False)"

subsection \<open>Stored options\<close>

definition is_baseline :: "props \<Rightarrow> bool" where
  "is_baseline opts =
     (get_prop opts ''episodes'' = JNum (Fin 0) \<and>
      get_prop opts ''episodeDuration'' = JNum (Fin 24) \<and>
      get_prop opts ''includeOpening'' = JBool False \<and>
      get_prop opts ''includeEnding'' = JBool False)"

text \<open>
  The invariant in the words of the specification: the stored options are the baseline or
  values that passed validation.
\<close>

definition claimed_options_invariant :: "runtime \<Rightarrow> session \<Rightarrow> bool" where
  "claimed_options_invariant rt s =
     (is_baseline (currentOptions s) \<or>
      isValid (validateCalculationInput rt (JObj (currentOptions s))))"

definition stored_episodes_ok :: "props \<Rightarrow> bool" where
  "stored_episodes_ok opts =
     (case get_prop opts ''episodes'' of
        JNum (Fin e) \<Rightarrow> 0 < e \<and> e \<le> 10000
      | _ \<Rightarrow> False)"

text \<open>
  A stored duration the calculation accepts: a finite number in range, or one of the values
  it replaces by the default.
\<close>

definition stored_duration_ok :: "props \<Rightarrow> bool" where
  "stored_duration_ok opts =
     (case get_prop opts ''episodeDuration'' of
        JNum (Fin d) \<Rightarrow> 0 < d \<and> d \<le> 1440
      | JNum NaN \<Rightarrow> True
      | JUndefined \<Rightarrow> True
      | JNull \<Rightarrow> True
      | _ \<Rightarrow> False)"

text \<open>A held result is the calculation of the stored options, which the guard let through.\<close>

definition result_consistent :: "runtime \<Rightarrow> session \<Rightarrow> bool" where
  "result_consistent rt s =
     (case currentResult s of
        None \<Rightarrow> True
      | Some r \<Rightarrow>
          js_gt (to_number rt (get_prop (currentOptions s) ''episodes'')) (Fin 0) \<and>
          calculateWatchTime rt (JObj (currentOptions s)) = Inr r)"

subsection \<open>What an operation did\<close>



subsection \<open>Sample inputs\<close>

definition anime12 :: jsval where
  "anime12 = JObj [(''episodes'', JNum (Fin 12)), (''duration'', JNum (Fin 24))]"

definition anime26 :: jsval where
  "anime26 = JObj [(''episodes'', JNum (Fin 26)), (''duration'', JNum (Fin 24))]"


definition anime_negative :: jsval where
  "anime_negative = JObj [(''episodes'', JNum (Fin (- 5))), (''duration'', JNum (Fin (- 3)))]"

definition options12 :: props where
  "options12 =
     [(''episodes'', JNum (Fin 12)),
      (''episodeDuration'', JNum (Fin 24)),
      (''includeOpening'', JBool True),
      (''includeEnding'', JBool True)]"

definition options_nan_duration :: jsval where
  "options_nan_duration =
     JObj [(''episodes'', JNum (Fin 12)), (''episodeDuration'', JNum NaN)]"

definition options_two_faults :: jsval where
  "options_two_faults =
     JObj [(''episodes'', JNum (Fin 20000)), (''episodeDuration'', JNum (Fin (- 5)))]"

definition observer :: jsval where
  "observer = JFun 0 False"




section \<open>Evaluation and basic facts\<close>

lemmas fl_ev = fl64_def nearest_double_def round_to_def binade_def pow2_def
  round_half_even_def log2n.simps doublings.simps

lemmas num_ev = js_eq_def js_gt_def js_le_def trunc_def digits10.simps to_number_def fl_ev

lemmas calc_ev = formatTime_def formatMinutes_def Let_def num_ev
  validateCalculationInput_def calculateWatchTime_def get_prop_def with_default_def
  OPENING_THEME_DURATION_def ENDING_THEME_DURATION_def DEFAULT_EPISODE_DURATION_def

lemmas session_ev = createTimeCalculator_def baseline_options_def updateAnime_def
  setIncludeOpening_def setIncludeEnding_def setThemeInclusion_def addChangeListener_def
  removeChangeListener_def reset_def recalculate_def notify_def call_listener_def js_or_def
  new_events_def calls_def getCurrentResult_def

lemmas words_defs = is_object_def is_number_def number_lt_def number_gt_def number_le_def
  number_is_def present_def

lemma get_prop_set_prop:
  "get_prop (set_prop k v ps) k' = (if k' = k then v else get_prop ps k')"
  by (induction ps) (auto simp: get_prop_def)

lemma Math_round_idem: "Math_round (Math_round n) = Math_round n"
  by (cases n) simp_all

lemma formatMinutes_round: "formatMinutes (Math_round n) = formatMinutes n"
  by (simp add: formatMinutes_def Math_round_idem)

lemma formatMinutes_zero: "formatMinutes (Fin 0) = ''0 minutes''"
  by (simp add: formatMinutes_def Let_def js_eq_def digits10.simps)

lemma formatTime_not_number: "\<not> is_number v \<Longrightarrow> formatTime v = ''0 minutes''"
  by (cases v) (simp_all add: formatTime_def is_number_def)

lemma formatTime_negative: "js_lt n (Fin 0) \<Longrightarrow> formatTime (JNum n) = ''0 minutes''"
  by (simp add: formatTime_def)

lemma formatTime_NaN: "formatTime (JNum NaN) = ''0 minutes''"
  by (simp add: formatTime_def formatMinutes_def Let_def js_gt_def)

lemma formatTime_PInf: "formatTime (JNum PInf) = ''Infinity hours''"
  by (simp add: formatTime_def formatMinutes_def Let_def js_gt_def js_eq_def)

subsection \<open>Rounding\<close>








subsection \<open>Validation\<close>

lemma validate_first_failure:
  "validateCalculationInput rt options =
     (case first_failure options of
        Some e \<Rightarrow> \<lparr>isValid = False, error = Some (error_message e)\<rparr>
      | None \<Rightarrow> \<lparr>isValid = True, error = None\<rparr>)"
proof (cases options)
  case (JObj ps)
  show ?thesis
  proof (cases "get_prop ps ''episodes''")
    case (JNum e)
    show ?thesis
      by (cases "get_prop ps ''episodeDuration''")
         (simp_all add: JObj JNum validateCalculationInput_def first_failure_def words_defs
            to_number_def js_gt_def Let_def)
  qed (simp_all add: JObj validateCalculationInput_def first_failure_def words_defs)
qed (simp_all add: validateCalculationInput_def first_failure_def words_defs)

lemma calc_fails:
  "first_failure options = Some e \<Longrightarrow>
   calculateWatchTime rt options = Inl (Error (error_message e))"
  by (simp add: calculateWatchTime_def validate_first_failure)

lemma calc_succeeds:
  "first_failure options = None \<Longrightarrow> \<not> isl (calculateWatchTime rt options)"
  by (simp add: calculateWatchTime_def validate_first_failure Let_def)

lemma succeeds_no_failure:
  "calculateWatchTime rt v = Inr r \<Longrightarrow> first_failure v = None"
  by (cases "first_failure v") (simp_all add: calc_fails)

lemma inj_error_message: "inj error_message"
proof (rule injI)
  fix x y
  show "error_message x = error_message y \<Longrightarrow> x = y"
    by (cases x; cases y) simp_all
qed

lemma valid_episodes:
  assumes "first_failure (JObj ps) = None"
    and "js_gt (to_number rt (get_prop ps ''episodes'')) (Fin 0)"
  shows "stored_episodes_ok ps"
proof (cases "get_prop ps ''episodes''")
  case (JNum n)
  with assms show ?thesis
    by (cases n)
       (simp_all add: first_failure_def words_defs stored_episodes_ok_def to_number_def
          js_gt_def js_eq_def Let_def split: if_splits)
qed (use assms in \<open>simp_all add: first_failure_def words_defs Let_def\<close>)

lemma valid_duration:
  assumes "first_failure (JObj ps) = None"
  shows "stored_duration_ok ps"
proof (cases "get_prop ps ''episodeDuration''")
  case (JNum n)
  with assms show ?thesis
    by (cases n)
       (simp_all add: first_failure_def words_defs stored_duration_ok_def
          js_gt_def js_le_def js_eq_def Let_def split: if_splits)
qed (use assms in \<open>simp_all add: first_failure_def words_defs stored_duration_ok_def Let_def
       split: if_splits\<close>)

subsection \<open>Listener calls and the recomputation\<close>




lemma recalculate_options [simp]: "currentOptions (recalculate rt s) = currentOptions s"
  by (simp add: recalculate_def split: sum.split js_error.split)

lemma recalculate_listeners [simp]: "changeListeners (recalculate rt s) = changeListeners s"
  by (simp add: recalculate_def split: sum.split js_error.split)



lemma step_recomputes:
  "recomputes x \<Longrightarrow> step rt x s = recalculate rt (write_options x s)"
  by (cases x)
     (simp_all add: updateAnime_def setIncludeOpening_def setIncludeEnding_def
        setThemeInclusion_def)

lemma write_options_trace [simp]: "trace (write_options x s) = trace s"
  by (cases x) simp_all

lemma write_options_listeners [simp]:
  "changeListeners (write_options x s) = changeListeners s"
  by (cases x) simp_all

subsection \<open>The held result\<close>

lemma recalculate_consistent: "result_consistent rt (recalculate rt s)"
  by (simp add: recalculate_def result_consistent_def split: sum.split js_error.split)

lemma step_consistent:
  assumes "result_consistent rt s"
  shows "result_consistent rt (step rt x s)"
proof (cases "recomputes x")
  case True
  then show ?thesis by (simp add: step_recomputes recalculate_consistent)
next
  case False
  with assms show ?thesis
    by (cases x)
       (auto simp: updateAnime_def reset_def addChangeListener_def removeChangeListener_def
          result_consistent_def split: option.splits)
qed

lemma run_consistent: "result_consistent rt s \<Longrightarrow> result_consistent rt (run rt xs s)"
  by (induction xs arbitrary: s) (simp_all add: step_consistent)

lemma create_consistent: "result_consistent rt (createTimeCalculator init)"
  by (simp add: result_consistent_def createTimeCalculator_def)

lemma quiet_step_result:
  "\<not> mutating x \<Longrightarrow> currentResult (step rt x s) = currentResult s"
  by (cases x)
     (auto simp: mutating_def updateAnime_def addChangeListener_def removeChangeListener_def)

lemma quiet_step_trace:
  "\<not> mutating x \<Longrightarrow> filter is_calc (trace (step rt x s)) = filter is_calc (trace s)"
  by (cases x)
     (auto simp: mutating_def updateAnime_def addChangeListener_def removeChangeListener_def
        call_listener_def)

section \<open>formatTime\<close>

text \<open>
  Claim C2, as amended. \<open>formatTime\<close> has no failing step: it returns a string for every
  JavaScript value. For every input that is not a finite non-negative number the result is
  \<open>''0 minutes''\<close>, with one exception: positive infinity is of type number and not below 0,
  passes the guard and is rendered as \<open>''Infinity hours''\<close>.
\<close>

theorem formatTime_degenerate_inputs:
  assumes "\<not> finite_nonnegative v"
  shows "formatTime v = (if v = JNum PInf then ''Infinity hours'' else ''0 minutes'')"
proof (cases v)
  case (JNum n)
  show ?thesis
  proof (cases n)
    case (Fin x)
    with assms JNum have "x < 0" by (simp add: finite_nonnegative_def)
    with JNum Fin show ?thesis by (simp add: formatTime_negative)
  qed (simp_all add: JNum formatTime_NaN formatTime_PInf formatTime_negative)
qed (simp_all add: formatTime_not_number is_number_def)

theorem formatTime_degenerate_inputs_witness:
  "\<not> finite_nonnegative (JNum (Fin (- 1))) \<and> formatTime (JNum (Fin (- 1))) = ''0 minutes''
   \<and> \<not> finite_nonnegative JNull \<and> formatTime JNull = ''0 minutes''
   \<and> \<not> finite_nonnegative (JNum NaN) \<and> formatTime (JNum NaN) = ''0 minutes''
   \<and> \<not> finite_nonnegative (JStr ''invalid'') \<and> formatTime (JStr ''invalid'') = ''0 minutes''"
  using formatTime_degenerate_inputs [of "JNum (Fin (- 1))"]
    formatTime_degenerate_inputs [of JNull]
    formatTime_degenerate_inputs [of "JNum NaN"]
    formatTime_degenerate_inputs [of "JStr ''invalid''"]
  by (simp add: finite_nonnegative_def)

text \<open>
  Claim C2 as stated fails at positive infinity: it is not a finite number, and the
  result is not \<open>''0 minutes''\<close>.
\<close>

theorem formatTime_infinity_counterexample:
  "\<not> finite_nonnegative (JNum PInf) \<and> formatTime (JNum PInf) \<noteq> ''0 minutes''"
  by (simp add: finite_nonnegative_def formatTime_PInf)

text \<open>
  Claim C7. Formatting a real number is formatting its rounding, where the rounding of
  \<open>x\<close> is the integer \<open>k\<close> with \<open>k - 1/2 \<le> x < k + 1/2\<close> (nearest, a half going up);
  59.5 gives \<open>''1 hour''\<close> and 90.7 gives \<open>''1 hour 31 minutes''\<close>.
\<close>

theorem formatTime_rounding_law:
  "formatTime (JNum (Fin x)) = formatTime (JNum (Math_round (Fin x)))
   \<and> (\<exists>k::int. Math_round (Fin x) = Fin (of_int k) \<and> of_int k - 1 / 2 \<le> x \<and> x < of_int k + 1 / 2)
   \<and> formatTime (JNum (Fin (119 / 2))) = ''1 hour''
   \<and> formatTime (JNum (Fin (907 / 10))) = ''1 hour 31 minutes''"
proof -
  have law: "formatTime (JNum (Fin x)) = formatTime (JNum (Math_round (Fin x)))"
  proof (cases "x < 0")
    case False
    then have "0 \<le> \<lfloor>x + 1 / 2\<rfloor>" by simp
    with False show ?thesis
      using formatMinutes_round [of "Fin x"] by (simp add: formatTime_def)
  next
    case True
    show ?thesis
    proof (cases "\<lfloor>x + 1 / 2\<rfloor> < 0")
      case True
      with \<open>x < 0\<close> show ?thesis by (simp add: formatTime_def)
    next
      case False
      have "\<lfloor>x + 1 / 2\<rfloor> \<le> 0" using \<open>x < 0\<close> by (simp add: floor_le_iff)
      with False have "\<lfloor>x + 1 / 2\<rfloor> = 0" by linarith
      with \<open>x < 0\<close> show ?thesis by (simp add: formatTime_def formatMinutes_zero)
    qed
  qed
  have half_up: "\<exists>k::int. Math_round (Fin x) = Fin (of_int k)
      \<and> of_int k - 1 / 2 \<le> x \<and> x < of_int k + 1 / 2"
  proof (intro exI conjI)
    show "Math_round (Fin x) = Fin (of_int \<lfloor>x + 1 / 2\<rfloor>)" by simp
    show "of_int \<lfloor>x + 1 / 2\<rfloor> - 1 / 2 \<le> x" by linarith
    show "x < of_int \<lfloor>x + 1 / 2\<rfloor> + 1 / 2" by linarith
  qed
  have a: "formatTime (JNum (Fin (119 / 2))) = ''1 hour''"
    by (simp add: formatTime_def formatMinutes_def Let_def num_ev)
  have b: "formatTime (JNum (Fin (907 / 10))) = ''1 hour 31 minutes''"
    by (simp add: formatTime_def formatMinutes_def Let_def num_ev)
  from law half_up a b show ?thesis by simp
qed

theorem formatTime_rounding_law_witness:
  "formatTime (JNum (Fin (59 + 2 / 5))) = ''59 minutes''
   \<and> formatTime (JNum (Fin (- 1 / 2))) = formatTime (JNum (Fin 0))"
proof -
  have "formatTime (JNum (Fin (59 + 2 / 5))) = formatTime (JNum (Math_round (Fin (59 + 2 / 5))))"
    using formatTime_rounding_law [of "59 + 2 / 5"] by blast
  moreover have "formatTime (JNum (Fin (- 1 / 2))) = formatTime (JNum (Math_round (Fin (- 1 / 2))))"
    using formatTime_rounding_law [of "- 1 / 2"] by blast
  ultimately show ?thesis
    by (simp add: formatTime_def formatMinutes_def Let_def num_ev)
qed

section \<open>calculateWatchTime\<close>



text \<open>
  Claim C4, as amended. \<open>calculateWatchTime\<close> fails exactly when one of the six conditions
  holds, with the message of the first one in the fixed order, and succeeds otherwise; the
  six messages are distinct. The fourth condition is: \<open>episodeDuration\<close> is present (neither
  undefined nor null) and is not of type number or is at most 0.
\<close>

theorem validation_order:
  "(case first_failure options of
      Some e \<Rightarrow> calculateWatchTime rt options = Inl (Error (error_message e))
    | None \<Rightarrow> \<not> isl (calculateWatchTime rt options))
   \<and> inj error_message"
  by (simp add: calc_fails calc_succeeds inj_error_message split: option.split)

theorem validation_order_witness:
  "first_failure options_two_faults = Some InvalidEpisodeDuration
   \<and> calculateWatchTime rt0 options_two_faults
       = Inl (Error ''Episode duration must be a positive number'')
   \<and> first_failure (JObj options12) = None
   \<and> \<not> isl (calculateWatchTime rt0 (JObj options12))"
proof -
  have a: "first_failure options_two_faults = Some InvalidEpisodeDuration"
    by (simp add: options_two_faults_def first_failure_def words_defs get_prop_def num_ev)
  have b: "first_failure (JObj options12) = None"
    by (simp add: options12_def first_failure_def words_defs get_prop_def num_ev)
  show ?thesis
    using validation_order [where options = options_two_faults and rt = rt0]
      validation_order [where options = "JObj options12" and rt = rt0] a b
    by simp
qed

text \<open>
  Claim C4 as stated fails on a \<^verbatim>\<open>NaN\<close> duration: it is present and is not a positive number,
  yet the call succeeds (the default duration is used).
\<close>

theorem validation_nan_duration_counterexample:
  "claimed_failure options_nan_duration = Some InvalidEpisodeDuration
   \<and> \<not> isl (calculateWatchTime rt0 options_nan_duration)"
  by (simp add: options_nan_duration_def claimed_failure_def words_defs calc_ev)

section \<open>The Session\<close>

text \<open>
  Claim C1, as amended. Take a Session built from any initial options and any sequence of
  operations. Whenever it holds a result, the stored \<open>episodes\<close> is a finite number above 0
  and at most 10000, the stored \<open>episodeDuration\<close> is a finite number above 0 and at most
  1440 or one of undefined, null and \<^verbatim>\<open>NaN\<close>, and the held result is the calculation of the
  stored options. The Session does not validate what it stores: in every state,
  \<open>updateAnime\<close> on an object stores \<open>episodes || 0\<close> and \<open>duration || 24\<close> as given, whether
  or not they pass validation; \<open>reset\<close> stores the baseline and the sentinel.
\<close>

theorem held_result_validated:
  "(currentResult (run rt xs (createTimeCalculator init)) = Some r \<longrightarrow>
      stored_episodes_ok (currentOptions (run rt xs (createTimeCalculator init)))
      \<and> stored_duration_ok (currentOptions (run rt xs (createTimeCalculator init)))
      \<and> calculateWatchTime rt (JObj (currentOptions (run rt xs (createTimeCalculator init))))
          = Inr r)
   \<and> get_prop (currentOptions (updateAnime rt (JObj d) s)) ''episodes''
       = js_or (get_prop d ''episodes'') (JNum (Fin 0))
   \<and> get_prop (currentOptions (updateAnime rt (JObj d) s)) ''episodeDuration''
       = js_or (get_prop d ''duration'') (JNum (Fin 24))
   \<and> currentOptions (reset s) = baseline_options
   \<and> is_baseline (currentOptions (reset s))
   \<and> currentResult (reset s) = None"
proof -
  let ?s = "run rt xs (createTimeCalculator init)"
  have held: "stored_episodes_ok (currentOptions ?s) \<and> stored_duration_ok (currentOptions ?s)
      \<and> calculateWatchTime rt (JObj (currentOptions ?s)) = Inr r"
    if h: "currentResult ?s = Some r"
  proof -
    have "result_consistent rt ?s"
      by (rule run_consistent) (rule create_consistent)
    with h have g: "js_gt (to_number rt (get_prop (currentOptions ?s) ''episodes'')) (Fin 0)"
      and c: "calculateWatchTime rt (JObj (currentOptions ?s)) = Inr r"
      by (simp_all add: result_consistent_def)
    from c have "first_failure (JObj (currentOptions ?s)) = None"
      by (rule succeeds_no_failure)
    with g c show ?thesis
      by (simp add: valid_episodes valid_duration)
  qed
  have stored: "get_prop (currentOptions (updateAnime rt (JObj d) s)) ''episodes''
        = js_or (get_prop d ''episodes'') (JNum (Fin 0))"
    "get_prop (currentOptions (updateAnime rt (JObj d) s)) ''episodeDuration''
        = js_or (get_prop d ''duration'') (JNum (Fin 24))"
    by (simp_all add: updateAnime_def get_prop_set_prop DEFAULT_EPISODE_DURATION_def)
  have restored: "currentOptions (reset s) = baseline_options"
    "is_baseline (currentOptions (reset s))"
    "currentResult (reset s) = None"
    by (simp_all add: reset_def is_baseline_def baseline_options_def get_prop_def
        DEFAULT_EPISODE_DURATION_def)
  from held stored restored show ?thesis by blast
qed

theorem held_result_validated_witness:
  "formattedTime (the (currentResult (run rt0 [UpdateAnime anime12] (createTimeCalculator JUndefined))))
     = ''4 hours 48 minutes''
   \<and> stored_episodes_ok (currentOptions (run rt0 [UpdateAnime anime12] (createTimeCalculator JUndefined)))
   \<and> stored_duration_ok (currentOptions (run rt0 [UpdateAnime anime12] (createTimeCalculator JUndefined)))"
proof -
  let ?s = "run rt0 [UpdateAnime anime12] (createTimeCalculator JUndefined)"
  have f: "formattedTime (the (currentResult ?s)) = ''4 hours 48 minutes''"
    by (simp add: anime12_def session_ev calc_ev)
  have h: "currentResult ?s = Some (the (currentResult ?s))"
    by (simp add: anime12_def session_ev calc_ev)
  show ?thesis
    using held_result_validated
      [where rt = rt0 and xs = "[UpdateAnime anime12]" and init = JUndefined
         and r = "the (currentResult ?s)"] f h
    by blast
qed

text \<open>
  Claim C1 as stated fails after \<open>updateAnime({episodes: -5, duration: -3})\<close> on a fresh
  Session: the negative numbers are stored, and the stored options are neither the baseline
  nor values that pass validation.
\<close>

theorem options_invariant_counterexample:
  "get_prop (currentOptions (run rt0 [UpdateAnime anime_negative] (createTimeCalculator JUndefined)))
       ''episodes'' = JNum (Fin (- 5))
   \<and> get_prop (currentOptions (run rt0 [UpdateAnime anime_negative] (createTimeCalculator JUndefined)))
       ''episodeDuration'' = JNum (Fin (- 3))
   \<and> \<not> claimed_options_invariant rt0
         (run rt0 [UpdateAnime anime_negative] (createTimeCalculator JUndefined))"
  by (simp add: anime_negative_def claimed_options_invariant_def is_baseline_def
      session_ev calc_ev)







text \<open>
  Claim C8. Registering a function appends it to the list of listeners and calls it, and
  no other listener, exactly once, with the current result and the current options and no
  third argument; the result and the options are as before the registration.
\<close>

theorem registration_notifies_once:
  assumes "typeof listener = TFunction"
  shows "changeListeners (addChangeListener listener s) = changeListeners s @ [listener]
    \<and> calls (new_events s (addChangeListener listener s)) =
        [ListenerCall listener (currentResult s) (currentOptions s) None]
    \<and> currentResult (addChangeListener listener s) = currentResult s
    \<and> currentOptions (addChangeListener listener s) = currentOptions s"
  using assms
  by (simp add: addChangeListener_def new_events_def calls_def call_listener_def)

theorem registration_notifies_once_witness:
  "typeof (JFun 1 True) = TFunction
   \<and> changeListeners (addChangeListener (JFun 1 True)
        (run rt0 [AddChangeListener observer, UpdateAnime anime12] (createTimeCalculator JUndefined)))
       = [observer, JFun 1 True]
   \<and> map notified_time (calls (new_events
        (run rt0 [AddChangeListener observer, UpdateAnime anime12] (createTimeCalculator JUndefined))
        (addChangeListener (JFun 1 True)
           (run rt0 [AddChangeListener observer, UpdateAnime anime12]
              (createTimeCalculator JUndefined)))))
       = [Some ''4 hours 48 minutes'']"
proof -
  let ?s = "run rt0 [AddChangeListener observer, UpdateAnime anime12]
    (createTimeCalculator JUndefined)"
  have t: "typeof (JFun 1 True) = TFunction" by simp
  have l: "changeListeners ?s = [observer]"
    by (simp add: anime12_def observer_def updateAnime_def addChangeListener_def
        createTimeCalculator_def)
  have f: "map_option formattedTime (currentResult ?s) = Some ''4 hours 48 minutes''"
    by (simp add: anime12_def observer_def session_ev calc_ev)
  show ?thesis
    using registration_notifies_once [OF t, of ?s] t l f by simp
qed

text \<open>
  Claim C9. On a fresh Session with one registered listener, \<open>updateAnime({episodes: 26,
  duration: 24})\<close>, \<open>setIncludeOpening(true)\<close>, \<open>setIncludeEnding(true)\<close>,
  \<open>setIncludeOpening(false)\<close> call the listener exactly four times, with results whose
  formatted times are, in order, 10 hours 24 minutes, 11 hours 3 minutes, 11 hours 42
  minutes and 11 hours 3 minutes.
\<close>

theorem session_scenario:
  "map notified_time
     (calls (new_events
        (run rt [AddChangeListener observer] (createTimeCalculator JUndefined))
        (run rt [AddChangeListener observer, UpdateAnime anime26,
                 SetIncludeOpening (JBool True), SetIncludeEnding (JBool True),
                 SetIncludeOpening (JBool False)] (createTimeCalculator JUndefined))))
   = [Some ''10 hours 24 minutes'', Some ''11 hours 3 minutes'',
      Some ''11 hours 42 minutes'', Some ''11 hours 3 minutes'']"
  by (simp add: anime26_def observer_def session_ev calc_ev)

theorem session_scenario_witness:
  "length
     (calls (new_events
        (run rt0 [AddChangeListener observer] (createTimeCalculator JUndefined))
        (run rt0 [AddChangeListener observer, UpdateAnime anime26,
                  SetIncludeOpening (JBool True), SetIncludeEnding (JBool True),
                  SetIncludeOpening (JBool False)] (createTimeCalculator JUndefined))))
   = 4"
  using arg_cong [OF session_scenario [of rt0], of length] by simp

text \<open>
  Claim C10. Whatever initial options the constructor is given, the fresh Session holds
  the sentinel and has called neither a listener nor \<open>calculateWatchTime\<close>; and as long as no
  mutating operation or manual recompute runs (only registrations, removals and
  \<open>updateAnime\<close> with a non-object), the result stays the sentinel and \<open>calculateWatchTime\<close>
  stays uncalled.
\<close>

theorem no_computation_at_construction:
  assumes "list_all (\<lambda>x. \<not> mutating x) xs"
  shows "getCurrentResult (createTimeCalculator init) = None
    \<and> trace (createTimeCalculator init) = []
    \<and> getCurrentResult (run rt xs (createTimeCalculator init)) = None
    \<and> filter is_calc (trace (run rt xs (createTimeCalculator init))) = []"
proof -
  have "currentResult (run rt xs s) = currentResult s
      \<and> filter is_calc (trace (run rt xs s)) = filter is_calc (trace s)" for s
    using assms by (induction xs arbitrary: s) (simp_all add: quiet_step_result quiet_step_trace)
  then show ?thesis
    by (simp add: getCurrentResult_def createTimeCalculator_def)
qed

theorem no_computation_at_construction_witness:
  "get_prop (getCurrentOptions (createTimeCalculator (JObj [(''episodes'', JNum (Fin 12))])))
      ''episodes'' = JNum (Fin 12)
   \<and> getCurrentResult (createTimeCalculator (JObj [(''episodes'', JNum (Fin 12))])) = None
   \<and> trace (createTimeCalculator (JObj [(''episodes'', JNum (Fin 12))])) = []
   \<and> getCurrentResult
       (run rt0 [AddChangeListener observer, UpdateAnime JNull, RemoveChangeListener observer]
          (createTimeCalculator (JObj [(''episodes'', JNum (Fin 12))]))) = None
   \<and> map_option formattedTime
       (getCurrentResult
          (run rt0 [Recalculate] (createTimeCalculator (JObj [(''episodes'', JNum (Fin 12))]))))
       = Some ''4 hours 48 minutes''"
proof -
  have q: "list_all (\<lambda>x. \<not> mutating x)
      [AddChangeListener observer, UpdateAnime JNull, RemoveChangeListener observer]"
    by (simp add: mutating_def)
  have e: "get_prop (getCurrentOptions (createTimeCalculator (JObj [(''episodes'', JNum (Fin 12))])))
      ''episodes'' = JNum (Fin 12)"
    by (simp add: getCurrentOptions_def createTimeCalculator_def baseline_options_def
        get_prop_def)
  have r: "map_option formattedTime
       (getCurrentResult
          (run rt0 [Recalculate] (createTimeCalculator (JObj [(''episodes'', JNum (Fin 12))]))))
       = Some ''4 hours 48 minutes''"
    by (simp add: session_ev calc_ev)
  show ?thesis
    using no_computation_at_construction
      [OF q, where init = "JObj [(''episodes'', JNum (Fin 12))]" and rt = rt0] e r
    by simp
qed

end
